theory Spec2Isabelle
  imports Main "HOL-Library.Log_Nat" "HOL-Library.Monad_Syntax"
begin

section \<open>Python values used by \<open>examples/events_scorer.py\<close>\<close>

subsection \<open>Floats\<close>

text \<open>
  A Python \<open>float\<close> is an IEEE 754 binary64 number. The scorers only ever hold finite
  floats, so a float is modelled by the rational number it denotes. A float literal
  and the result of \<open>+\<close> and \<open>-\<close> are the exact rational result rounded to the nearest
  binary64 number, ties to the even significand (\<open>binary64\<close>). Infinities, NaN and the
  sign of zero are not modelled; every number the scorers compute has magnitude at
  most \<open>1.1\<close> and the only zero they produce is the literal \<open>0.0\<close>.
\<close>

type_synonym py_float = rat

definition round_half_even :: "rat \<Rightarrow> int" where
  "round_half_even r =
     (let n = \<lfloor>r\<rfloor>; d = r - of_int n
      in if d < 1 / 2 then n else if 1 / 2 < d then n + 1 else if even n then n else n + 1)"

text \<open>
  \<open>floor_log2 x\<close> is the binary exponent \<open>e\<close> of a positive rational:
  \<open>2^e \<le> x < 2^(e+1)\<close>. It is computed from the bit lengths of numerator and
  denominator, which locate \<open>x\<close> between \<open>2^(d-1)\<close> and \<open>2^(d+1)\<close>.
\<close>

definition floor_log2 :: "rat \<Rightarrow> int" where
  "floor_log2 x =
     (let d = bitlen (fst (quotient_of x)) - bitlen (snd (quotient_of x))
      in if 2 powi d \<le> x then d else d - 1)"

text \<open>
  Rounding to binary64: 53 significant bits, so the spacing of the numbers with
  exponent \<open>e\<close> is \<open>2^(e-52)\<close>; below the smallest normal exponent \<open>-1022\<close> the spacing
  stays that of the subnormal numbers.
\<close>

definition binary64 :: "rat \<Rightarrow> py_float" where
  "binary64 x =
     (if x = 0 then 0
      else let e = max (floor_log2 \<bar>x\<bar>) (- 1022); ulp = 2 powi (e - 52)
           in of_int (round_half_even (x / ulp)) * ulp)"

definition float_lit :: "rat \<Rightarrow> py_float" where
  \<comment> \<open>a decimal float literal of the source, such as \<open>0.1\<close>\<close>
  "float_lit d = binary64 d"

definition float_add :: "py_float \<Rightarrow> py_float \<Rightarrow> py_float" where
  "float_add x y = binary64 (x + y)"

definition float_sub :: "py_float \<Rightarrow> py_float \<Rightarrow> py_float" where
  "float_sub x y = binary64 (x - y)"

text \<open>
  The builtins \<open>min(a, b)\<close> and \<open>max(a, b)\<close> keep their first argument unless the
  second is strictly smaller (greater).
\<close>

definition py_min :: "py_float \<Rightarrow> py_float \<Rightarrow> py_float" where
  "py_min a b = (if b < a then b else a)"

definition py_max :: "py_float \<Rightarrow> py_float \<Rightarrow> py_float" where
  "py_max a b = (if a < b then b else a)"

subsection \<open>Strings\<close>

text \<open>
  \<open>sub in s\<close> on strings: \<open>sub\<close> occurs in \<open>s\<close> at some position. The search tries
  every start position from the left; the empty string occurs in every string.
\<close>

fun startswith :: "string \<Rightarrow> string \<Rightarrow> bool" where
  "startswith s [] = True"
| "startswith [] (c # p) = False"
| "startswith (x # s) (c # p) = (x = c \<and> startswith s p)"

fun str_contains :: "string \<Rightarrow> string \<Rightarrow> bool" where
  "str_contains sub [] = (sub = [])"
| "str_contains sub (c # s) = (startswith (c # s) sub \<or> str_contains sub s)"

text \<open>\<open>sep.join(xs)\<close> for a list of strings.\<close>

fun str_join :: "string \<Rightarrow> string list \<Rightarrow> string" where
  "str_join sep [] = []"
| "str_join sep [x] = x"
| "str_join sep (x # y # ys) = x @ sep @ str_join sep (y # ys)"

text \<open>The decimal text of an integer, as an f-string field \<open>{n}\<close> renders it.\<close>

definition digit_char :: "nat \<Rightarrow> char" where
  "digit_char d = ''0123456789'' ! d"

function str_nat :: "nat \<Rightarrow> string" where
  "str_nat n = (if n < 10 then [digit_char n] else str_nat (n div 10) @ [digit_char (n mod 10)])"
  by pat_completeness auto
termination
  by (relation "measure (\<lambda>n. n)") auto

definition str_int :: "int \<Rightarrow> string" where
  "str_int i = (if i < 0 then CHR ''-'' # str_nat (nat (- i)) else str_nat (nat i))"

section \<open>The data the scorers read and build\<close>

text \<open>
  An event of the evaluation log. \<open>isinstance\<close> only tells tool events and model
  events from the rest, and the only attribute read is a tool event's \<open>function\<close>
  (the name of the tool called); \<open>OtherEvent\<close> stands for every other event class and
  carries the name of its kind.
\<close>

datatype event = ToolEvent string | ModelEvent | OtherEvent string

fun isinstance_ToolEvent :: "event \<Rightarrow> bool" where
  "isinstance_ToolEvent (ToolEvent f) = True"
| "isinstance_ToolEvent ModelEvent = False"
| "isinstance_ToolEvent (OtherEvent k) = False"

fun isinstance_ModelEvent :: "event \<Rightarrow> bool" where
  "isinstance_ModelEvent (ToolEvent f) = False"
| "isinstance_ModelEvent ModelEvent = True"
| "isinstance_ModelEvent (OtherEvent k) = False"

datatype py_error = AttributeError

text \<open>\<open>e.function\<close>: only a tool event has the attribute.\<close>

fun event_function :: "event \<Rightarrow> py_error + string" where
  "event_function (ToolEvent f) = Inr f"
| "event_function ModelEvent = Inl AttributeError"
| "event_function (OtherEvent k) = Inl AttributeError"

text \<open>
  What the scorers read: \<open>state.events\<close>, \<open>state.output.completion\<close> and \<open>target.text\<close>;
  and the \<open>Score\<close> they build, whose metadata is a dictionary from strings to integers,
  booleans and lists of strings. The fields \<open>output\<close>, \<open>text\<close> and \<open>value\<close> are named
  \<open>state_output\<close>, \<open>target_text\<close> and \<open>score_value\<close>, their own names being reserved
  words here.
\<close>

record ModelOutput =
  completion :: string

record TaskState =
  events :: "event list"
  state_output :: ModelOutput

record Target =
  target_text :: string

datatype meta_value = MInt int | MBool bool | MStrList "string list"

record Score =
  score_value :: py_float
  answer :: string
  explanation :: string
  metadata :: "string \<rightharpoonup> meta_value"

section \<open>\<open>process_aware_scorer\<close>\<close>

text \<open>
  The loop \<open>for event in tool_events: tool_calls.append(event.function)\<close>, with the
  list built so far as accumulator.
\<close>

fun collect_tool_calls :: "string list \<Rightarrow> event list \<Rightarrow> py_error + string list" where
  "collect_tool_calls tool_calls [] = Inr tool_calls"
| "collect_tool_calls tool_calls (event # rest) =
     (case event_function event of
        Inl err \<Rightarrow> Inl err
      | Inr f \<Rightarrow> collect_tool_calls (tool_calls @ [f]) rest)"

text \<open>Line 74: the score before any adjustment.\<close>

definition base_score_of :: "TaskState \<Rightarrow> Target \<Rightarrow> py_float" where
  "base_score_of state target =
     (if str_contains (target_text target) (completion (state_output state))
      then float_lit 1 else float_lit 0)"

text \<open>Lines 77 to 82: the bonus, then the penalty, on the running \<open>base_score\<close>.\<close>

definition adjusted_score :: "py_float \<Rightarrow> string list \<Rightarrow> py_float" where
  "adjusted_score base_score tool_calls =
     (let base_score1 =
            (if int (length tool_calls) > 0
             then float_add base_score (float_lit (1 / 10)) else base_score);
          base_score2 =
            (if int (length tool_calls) > 3
             then float_sub base_score1 (float_lit (2 / 10)) else base_score1)
      in base_score2)"

text \<open>Line 85: \<open>max(0.0, min(1.0, base_score))\<close>.\<close>

definition final_score_of :: "py_float \<Rightarrow> py_float" where
  "final_score_of base_score = py_max (float_lit 0) (py_min (float_lit 1) base_score)"

text \<open>Lines 87 to 91: the f-string.\<close>

definition explanation_of :: "event list \<Rightarrow> event list \<Rightarrow> string list \<Rightarrow> string" where
  "explanation_of evs model_events tool_calls =
     ''Found '' @ str_int (int (length evs)) @ '' total events: ''
     @ str_int (int (length model_events)) @ '' model calls, ''
     @ str_int (int (length tool_calls)) @ '' tool calls. ''
     @ ''Tools used: ''
     @ (if tool_calls \<noteq> [] then str_join '', '' tool_calls else ''none'') @ ''.''"

definition process_aware_scorer :: "TaskState \<Rightarrow> Target \<Rightarrow> py_error + Score" where
  "process_aware_scorer state target =
     (let evs = events state;
          tool_events = filter isinstance_ToolEvent evs;
          model_events = filter isinstance_ModelEvent evs
      in case collect_tool_calls [] tool_events of
           Inl err \<Rightarrow> Inl err
         | Inr tool_calls \<Rightarrow>
             Inr \<lparr>score_value =
                    final_score_of (adjusted_score (base_score_of state target) tool_calls),
                  answer = completion (state_output state),
                  explanation = explanation_of evs model_events tool_calls,
                  metadata =
                    [''total_events'' \<mapsto> MInt (int (length evs)),
                     ''model_events'' \<mapsto> MInt (int (length model_events)),
                     ''tool_events'' \<mapsto> MInt (int (length tool_events)),
                     ''tools_used'' \<mapsto> MStrList tool_calls]\<rparr>)"

text \<open>
  The value of \<open>base_score\<close> when line 85 is reached, before it is clamped.
\<close>

definition pre_clamp_score :: "TaskState \<Rightarrow> Target \<Rightarrow> py_error + py_float" where
  "pre_clamp_score state target =
     (case collect_tool_calls [] (filter isinstance_ToolEvent (events state)) of
        Inl err \<Rightarrow> Inl err
      | Inr tool_calls \<Rightarrow> Inr (adjusted_score (base_score_of state target) tool_calls))"

section \<open>\<open>step_verification_scorer\<close>\<close>

text \<open>
  \<open>any(e.function == 'add' for e in tool_events)\<close>: the generator is consumed from
  the left and \<open>any\<close> stops at the first true element.
\<close>

fun any_function_is_add :: "event list \<Rightarrow> py_error + bool" where
  "any_function_is_add [] = Inr False"
| "any_function_is_add (e # rest) =
     (case event_function e of
        Inl err \<Rightarrow> Inl err
      | Inr f \<Rightarrow> if f = ''add'' then Inr True else any_function_is_add rest)"

definition step_verification_scorer :: "TaskState \<Rightarrow> Target \<Rightarrow> py_error + Score" where
  "step_verification_scorer state target =
     (let evs = events state;
          tool_events = filter isinstance_ToolEvent evs
      in case any_function_is_add tool_events of
           Inl err \<Rightarrow> Inl err
         | Inr add_tool_used \<Rightarrow>
             let correct = str_contains (target_text target) (completion (state_output state));
                 (score_val, expl) =
                   (if correct \<and> add_tool_used
                    then (float_lit 1, ''Correct answer and used required add tool'')
                    else if correct \<and> \<not> add_tool_used
                    then (float_lit (5 / 10), ''Correct answer but did not use required add tool'')
                    else if \<not> correct \<and> add_tool_used
                    then (float_lit (3 / 10), ''Used required add tool but incorrect answer'')
                    else (float_lit 0, ''Incorrect answer and did not use required add tool''))
             in Inr \<lparr>score_value = score_val,
                     answer = completion (state_output state),
                     explanation = expl,
                     metadata = [''add_tool_used'' \<mapsto> MBool add_tool_used]\<rparr>)"

section \<open>The scorers on a store of list objects\<close>

text \<open>
  Python lists are objects reached by reference: \<open>state.events\<close> is a reference to the
  list of events, a list comprehension and \<open>[]\<close> make new list objects, and
  \<open>tool_calls.append\<close> changes an object in place. To say what a scorer does to the
  objects it is given, its statements are read once more over a store: the list of all
  list objects, an address being an index into it. Strings, numbers and the fields of
  an event cannot be changed through anything the scorers do and stay plain values.
  A read that finds no object, or an object of the other kind, has no Python
  counterpart (a reference always leads to its object); the model answers \<open>None\<close>.
\<close>

datatype obj = EventList "event list" | StrList "string list"

type_synonym addr = nat

type_synonym store = "obj list"

definition event_list_at :: "store \<Rightarrow> addr \<Rightarrow> event list option" where
  "event_list_at st a =
     (if a < length st then (case st ! a of EventList es \<Rightarrow> Some es | StrList xs \<Rightarrow> None)
      else None)"

definition str_list_at :: "store \<Rightarrow> addr \<Rightarrow> string list option" where
  "str_list_at st a =
     (if a < length st then (case st ! a of EventList es \<Rightarrow> None | StrList xs \<Rightarrow> Some xs)
      else None)"

text \<open>A new object gets the next free address; no existing object moves or changes.\<close>

definition new_obj :: "store \<Rightarrow> obj \<Rightarrow> addr \<times> store" where
  "new_obj st ob = (length st, st @ [ob])"

text \<open>\<open>xs.append(x)\<close> on the list of strings at address \<open>a\<close>.\<close>

definition list_append :: "store \<Rightarrow> addr \<Rightarrow> string \<Rightarrow> store option" where
  "list_append st a x =
     (case str_list_at st a of
        None \<Rightarrow> None
      | Some xs \<Rightarrow> Some (st[a := StrList (xs @ [x])]))"

text \<open>
  The state and the score with their lists held by reference, and what they denote in
  a given store.
\<close>

record TaskState_ref =
  events_ref :: addr
  output_ref :: ModelOutput

datatype meta_ref = RInt int | RBool bool | RList addr

record Score_ref =
  score_value_ref :: py_float
  answer_ref :: string
  explanation_ref :: string
  metadata_ref :: "string \<rightharpoonup> meta_ref"

definition load_state :: "store \<Rightarrow> TaskState_ref \<Rightarrow> TaskState option" where
  "load_state st sr =
     (case event_list_at st (events_ref sr) of
        None \<Rightarrow> None
      | Some evs \<Rightarrow> Some \<lparr>events = evs, state_output = output_ref sr\<rparr>)"

fun load_meta :: "store \<Rightarrow> meta_ref \<Rightarrow> meta_value option" where
  "load_meta st (RInt i) = Some (MInt i)"
| "load_meta st (RBool b) = Some (MBool b)"
| "load_meta st (RList a) =
     (case str_list_at st a of None \<Rightarrow> None | Some xs \<Rightarrow> Some (MStrList xs))"

definition load_score :: "store \<Rightarrow> Score_ref \<Rightarrow> Score" where
  "load_score st r =
     \<lparr>score_value = score_value_ref r, answer = answer_ref r, explanation = explanation_ref r,
      metadata = (\<lambda>k. case metadata_ref r k of None \<Rightarrow> None | Some m \<Rightarrow> load_meta st m)\<rparr>"

text \<open>
  The loop \<open>for event in tool_events: tool_calls.append(event.function)\<close>. A list
  iterator keeps an index and looks at the list as it is when the next element is asked
  for, so every round reads the store again.
\<close>

function append_functions ::
  "store \<Rightarrow> addr \<Rightarrow> addr \<Rightarrow> nat \<Rightarrow> ((py_error + unit) \<times> store) option" where
  "append_functions st tool_events tool_calls i =
     (case event_list_at st tool_events of
        None \<Rightarrow> None
      | Some es \<Rightarrow>
          if i < length es then
            (case event_function (es ! i) of
               Inl err \<Rightarrow> Some (Inl err, st)
             | Inr f \<Rightarrow>
                 (case list_append st tool_calls f of
                    None \<Rightarrow> None
                  | Some st' \<Rightarrow> append_functions st' tool_events tool_calls (i + 1)))
          else Some (Inr (), st))"
  by pat_completeness auto

termination
  by (relation "measure (\<lambda>(st, te, tc, i).
        case event_list_at st te of None \<Rightarrow> 0 | Some es \<Rightarrow> length es - i)")
    (auto simp: list_append_def event_list_at_def str_list_at_def nth_list_update
      split: option.splits if_splits obj.splits)

text \<open>
  \<open>process_aware_scorer\<close> statement by statement; the score holds the reference to
  \<open>tool_calls\<close>.
\<close>

definition process_aware_scorer_on ::
  "store \<Rightarrow> TaskState_ref \<Rightarrow> Target \<Rightarrow> ((py_error + Score_ref) \<times> store) option" where
  "process_aware_scorer_on st state target =
     do {
       evs \<leftarrow> event_list_at st (events_ref state);
       let (tool_events, st1) = new_obj st (EventList (filter isinstance_ToolEvent evs));
       evs1 \<leftarrow> event_list_at st1 (events_ref state);
       let (model_events, st2) = new_obj st1 (EventList (filter isinstance_ModelEvent evs1));
       let (tool_calls, st3) = new_obj st2 (StrList []);
       (res, st4) \<leftarrow> append_functions st3 tool_events tool_calls 0;
       case res of
         Inl err \<Rightarrow> Some (Inl err, st4)
       | Inr u \<Rightarrow>
           do {
             calls \<leftarrow> str_list_at st4 tool_calls;
             evs4 \<leftarrow> event_list_at st4 (events_ref state);
             mevs \<leftarrow> event_list_at st4 model_events;
             tevs \<leftarrow> event_list_at st4 tool_events;
             let base_score =
                   (if str_contains (target_text target) (completion (output_ref state))
                    then float_lit 1 else float_lit 0);
             Some (Inr \<lparr>score_value_ref = final_score_of (adjusted_score base_score calls),
                        answer_ref = completion (output_ref state),
                        explanation_ref = explanation_of evs4 mevs calls,
                        metadata_ref =
                          [''total_events'' \<mapsto> RInt (int (length evs4)),
                           ''model_events'' \<mapsto> RInt (int (length mevs)),
                           ''tool_events'' \<mapsto> RInt (int (length tevs)),
                           ''tools_used'' \<mapsto> RList tool_calls]\<rparr>, st4)
           }
     }"

text \<open>
  \<open>step_verification_scorer\<close>: it makes one list and changes none, and \<open>any\<close> walks the
  new list from the left.
\<close>

definition step_verification_scorer_on ::
  "store \<Rightarrow> TaskState_ref \<Rightarrow> Target \<Rightarrow> ((py_error + Score_ref) \<times> store) option" where
  "step_verification_scorer_on st state target =
     do {
       evs \<leftarrow> event_list_at st (events_ref state);
       let (tool_events, st1) = new_obj st (EventList (filter isinstance_ToolEvent evs));
       tevs \<leftarrow> event_list_at st1 tool_events;
       case any_function_is_add tevs of
         Inl err \<Rightarrow> Some (Inl err, st1)
       | Inr add_tool_used \<Rightarrow>
           (let correct = str_contains (target_text target) (completion (output_ref state));
                (score_val, expl) =
                  (if correct \<and> add_tool_used
                   then (float_lit 1, ''Correct answer and used required add tool'')
                   else if correct \<and> \<not> add_tool_used
                   then (float_lit (5 / 10), ''Correct answer but did not use required add tool'')
                   else if \<not> correct \<and> add_tool_used
                   then (float_lit (3 / 10), ''Used required add tool but incorrect answer'')
                   else (float_lit 0, ''Incorrect answer and did not use required add tool''))
            in Some (Inr \<lparr>score_value_ref = score_val,
                           answer_ref = completion (output_ref state),
                           explanation_ref = expl,
                           metadata_ref = [''add_tool_used'' \<mapsto> RBool add_tool_used]\<rparr>, st1))
     }"

section \<open>Notions of the specification\<close>

text \<open>
  The specification speaks of a text occurring as a substring of another, of clamping a
  number into an interval, of counts reported in the explanation, and of the function
  names of the tool events in order of occurrence. These are written down here
  independently of the code.
\<close>

definition occurs_in :: "string \<Rightarrow> string \<Rightarrow> bool" where
  "occurs_in sub s = (\<exists>ps ss. s = ps @ sub @ ss)"

definition clamp :: "rat \<Rightarrow> rat \<Rightarrow> rat \<Rightarrow> rat" where
  "clamp x lo hi = (if x < lo then lo else if hi < x then hi else x)"

text \<open>The number a string of decimal digits denotes.\<close>

definition digit_value :: "char \<Rightarrow> nat" where
  "digit_value c = of_char c - 48"

definition decimal_value :: "string \<Rightarrow> nat" where
  "decimal_value s = foldl (\<lambda>n c. 10 * n + digit_value c) 0 s"

fun tool_names :: "event list \<Rightarrow> string list" where
  "tool_names [] = []"
| "tool_names (ToolEvent f # es) = f # tool_names es"
| "tool_names (ModelEvent # es) = tool_names es"
| "tool_names (OtherEvent k # es) = tool_names es"

section \<open>The float model: accuracy and constants\<close>

text \<open>
  The rounding is the one of binary64: the exponent found is the binary exponent of the
  number, the result is within half a unit in the last place of the number, and its
  significand has at most 53 bits.
\<close>

lemma round_half_even_error: "\<bar>of_int (round_half_even r) - r\<bar> \<le> 1 / 2"
proof -
  have "of_int \<lfloor>r\<rfloor> \<le> r" "r < of_int \<lfloor>r\<rfloor> + 1" by linarith+
  then show ?thesis
    by (auto simp: round_half_even_def Let_def)
qed

lemma floor_log2_bounds:
  assumes "0 < x"
  shows "2 powi floor_log2 x \<le> x \<and> x < 2 powi (floor_log2 x + 1)"
proof -
  obtain p q where pq: "quotient_of x = (p, q)" by (cases "quotient_of x")
  then have q: "0 < q" and x: "x = of_int p / of_int q"
    using quotient_of_denom_pos quotient_of_div by auto
  from assms x q have p: "0 < p"
    by (simp add: zero_less_divide_iff)
  define bp where "bp = bitlen p"
  define bq where "bq = bitlen q"
  have bp: "2 ^ nat (bp - 1) \<le> p" "p < 2 ^ nat bp" and bp1: "1 \<le> bp"
    using bitlen_bounds[OF p] p by (auto simp: bp_def bitlen_alt_def)
  have bq: "2 ^ nat (bq - 1) \<le> q" "q < 2 ^ nat bq" and bq1: "1 \<le> bq"
    using bitlen_bounds[OF q] q by (auto simp: bq_def bitlen_alt_def)
  have rp: "(2::rat) ^ nat (bp - 1) \<le> of_int p" "of_int p < (2::rat) ^ nat bp"
    using bp by (metis of_int_le_iff of_int_numeral of_int_power, metis of_int_less_iff of_int_numeral of_int_power)
  have rq: "(2::rat) ^ nat (bq - 1) \<le> of_int q" "of_int q < (2::rat) ^ nat bq"
    using bq by (metis of_int_le_iff of_int_numeral of_int_power, metis of_int_less_iff of_int_numeral of_int_power)
  have qpos: "(0::rat) < of_int q" using q by simp
  have e1: "(2::rat) powi (bp - bq - 1) = 2 ^ nat (bp - 1) / 2 ^ nat bq"
  proof -
    have "(2::rat) powi ((bp - 1) - bq) = 2 powi (bp - 1) / 2 powi bq"
      by (rule power_int_diff) simp
    moreover have "(bp - 1) - bq = bp - bq - 1" by simp
    ultimately have "(2::rat) powi (bp - bq - 1) = 2 powi (bp - 1) / 2 powi bq"
      by simp
    then show ?thesis using bp1 bq1 by (simp add: power_int_def)
  qed
  have e2: "(2::rat) powi (bp - bq + 1) = 2 ^ nat bp / 2 ^ nat (bq - 1)"
  proof -
    have "(2::rat) powi (bp - (bq - 1)) = 2 powi bp / 2 powi (bq - 1)"
      by (rule power_int_diff) simp
    moreover have "bp - (bq - 1) = bp - bq + 1" by simp
    ultimately have "(2::rat) powi (bp - bq + 1) = 2 powi bp / 2 powi (bq - 1)"
      by simp
    then show ?thesis using bp1 bq1 by (simp add: power_int_def)
  qed
  have lo: "(2::rat) powi (bp - bq - 1) < x"
    unfolding e1 x using rp(1) rq(2) qpos
    by (intro frac_less2) auto
  have hi: "x < (2::rat) powi (bp - bq + 1)"
    unfolding e2 x using rp(2) rq(1) qpos p
    by (intro frac_less) auto
  show ?thesis
    using lo hi by (auto simp: floor_log2_def pq Let_def bp_def[symmetric] bq_def[symmetric] not_le)
qed

lemma binary64_error:
  assumes "x \<noteq> 0"
  shows "\<bar>binary64 x - x\<bar> \<le> 2 powi (max (floor_log2 \<bar>x\<bar>) (- 1022) - 53)"
proof -
  define e where "e = max (floor_log2 \<bar>x\<bar>) (- 1022)"
  define ulp :: rat where "ulp = 2 powi (e - 52)"
  have ulp: "0 < ulp" by (simp add: ulp_def)
  have b: "binary64 x = of_int (round_half_even (x / ulp)) * ulp"
    using assms by (simp add: binary64_def Let_def e_def ulp_def)
  have "binary64 x - x = (of_int (round_half_even (x / ulp)) - x / ulp) * ulp"
    using ulp by (simp add: b left_diff_distrib)
  then have "\<bar>binary64 x - x\<bar> = \<bar>of_int (round_half_even (x / ulp)) - x / ulp\<bar> * ulp"
    using ulp by (simp add: abs_mult)
  also have "\<dots> \<le> 1 / 2 * ulp"
    using round_half_even_error[of "x / ulp"] ulp by (intro mult_right_mono) auto
  also have "\<dots> = 2 powi (e - 53)"
  proof -
    have "(2::rat) powi ((e - 53) + 1) = 2 powi (e - 53) * 2 powi 1"
      by (rule power_int_add) simp
    moreover have "(e - 53) + 1 = e - 52" by simp
    ultimately have "ulp = 2 powi (e - 53) * 2" unfolding ulp_def
      by simp
    then show ?thesis by simp
  qed
  finally show ?thesis by (simp add: e_def)
qed

lemma round_half_even_floor:
  "\<lfloor>r\<rfloor> \<le> round_half_even r \<and> round_half_even r \<le> \<lfloor>r\<rfloor> + 1"
  by (simp add: round_half_even_def Let_def)

lemma round_half_even_bounds:
  assumes "of_int lo \<le> r" "r \<le> of_int hi"
  shows "lo \<le> round_half_even r \<and> round_half_even r \<le> hi"
proof (cases "\<lfloor>r\<rfloor> = hi")
  case True
  have "of_int \<lfloor>r\<rfloor> \<le> r" by simp
  with True assms(2) have "r = of_int hi" by simp
  then have "round_half_even r = hi"
    by (simp add: round_half_even_def)
  moreover have "lo \<le> hi" using assms by linarith
  ultimately show ?thesis by simp
next
  case False
  have "lo \<le> \<lfloor>r\<rfloor>" "\<lfloor>r\<rfloor> \<le> hi"
    using assms by (simp_all add: le_floor_iff floor_le_iff)
  with False round_half_even_floor[of r] show ?thesis by linarith
qed

lemma binary64_significand:
  assumes "x \<noteq> 0"
  shows "\<bar>round_half_even (x / 2 powi (max (floor_log2 \<bar>x\<bar>) (- 1022) - 52))\<bar> \<le> 2 ^ 53"
proof -
  define e where "e = max (floor_log2 \<bar>x\<bar>) (- 1022)"
  define ulp :: rat where "ulp = 2 powi (e - 52)"
  have ulp: "0 < ulp" by (simp add: ulp_def)
  have "\<bar>x\<bar> < 2 powi (floor_log2 \<bar>x\<bar> + 1)"
    using floor_log2_bounds[of "\<bar>x\<bar>"] assms by simp
  also have "\<dots> \<le> 2 powi (e + 1)"
    by (rule power_int_increasing) (simp_all add: e_def)
  also have "\<dots> = 2 ^ 53 * ulp"
  proof -
    have "(2::rat) powi (53 + (e - 52)) = 2 powi 53 * 2 powi (e - 52)"
      by (rule power_int_add) simp
    moreover have "53 + (e - 52) = e + 1" by simp
    ultimately show ?thesis by (simp add: ulp_def)
  qed
  finally have "\<bar>x\<bar> / ulp < 2 ^ 53" using ulp by (simp add: pos_divide_less_eq)
  moreover have "\<bar>x / ulp\<bar> = \<bar>x\<bar> / \<bar>ulp\<bar>" by (rule abs_divide)
  moreover have "\<bar>ulp\<bar> = ulp" using ulp by simp
  ultimately have "\<bar>x / ulp\<bar> < 2 ^ 53" by (simp only:)
  then have "- (2 ^ 53) \<le> x / ulp" "x / ulp \<le> 2 ^ 53"
    by linarith+
  then have "of_int (- (2 ^ 53)) \<le> x / ulp" "x / ulp \<le> of_int (2 ^ 53)"
    by simp_all
  from round_half_even_bounds[OF this]
  show ?thesis by (simp add: e_def ulp_def abs_le_iff)
qed

text \<open>
  The floats the scorers meet, as fractions with a power of two below: the literals,
  and the sums and differences the adjustments can produce. Each is computed from the
  definition of the rounding.
\<close>

lemma float_lit_0: "float_lit 0 = 0"
  by (simp add: float_lit_def binary64_def)

lemma float_lit_1: "float_lit 1 = 1"
  by code_simp

lemma float_lit_tenth: "float_lit (1 / 10) = 3602879701896397 / 36028797018963968"
  by code_simp

lemma float_lit_fifth: "float_lit (2 / 10) = 3602879701896397 / 18014398509481984"
  by code_simp

lemma float_lit_fifth': "float_lit (1 / 5) = 3602879701896397 / 18014398509481984"
  by code_simp

lemma float_lit_half': "float_lit (1 / 2) = 1 / 2"
  by code_simp

lemma float_lit_half: "float_lit (5 / 10) = 1 / 2"
  by code_simp

lemma float_lit_three_tenths: "float_lit (3 / 10) = 5404319552844595 / 18014398509481984"
  by code_simp

lemma float_lit_nine_tenths: "float_lit (9 / 10) = 8106479329266893 / 9007199254740992"
  by code_simp

lemma float_lit_eleven_tenths: "float_lit (11 / 10) = 2476979795053773 / 2251799813685248"
  by code_simp

lemma add_0_tenth:
  "float_add 0 (3602879701896397 / 36028797018963968) = 3602879701896397 / 36028797018963968"
  by code_simp

lemma add_1_tenth:
  "float_add 1 (3602879701896397 / 36028797018963968) = 2476979795053773 / 2251799813685248"
  by code_simp

lemma sub_tenth_fifth:
  "float_sub (3602879701896397 / 36028797018963968) (3602879701896397 / 18014398509481984)
     = - (3602879701896397 / 36028797018963968)"
  by code_simp

lemma sub_11_fifth:
  "float_sub (2476979795053773 / 2251799813685248) (3602879701896397 / 18014398509481984)
     = 4053239664633447 / 4503599627370496"
  by code_simp

section \<open>Strings: substring search and decimal text\<close>

lemma startswith_iff: "startswith s p \<longleftrightarrow> (\<exists>ss. s = p @ ss)"
  by (induction s p rule: startswith.induct) auto

lemma str_contains_iff: "str_contains sub s \<longleftrightarrow> (\<exists>ps ss. s = ps @ sub @ ss)"
proof (induction s)
  case Nil
  then show ?case by auto
next
  case (Cons c s)
  show ?case
  proof
    assume "str_contains sub (c # s)"
    then consider "startswith (c # s) sub" | "str_contains sub s" by auto
    then show "\<exists>ps ss. c # s = ps @ sub @ ss"
    proof cases
      case 1
      then obtain ss where "c # s = sub @ ss" by (auto simp: startswith_iff)
      then have "c # s = [] @ sub @ ss" by simp
      then show ?thesis by blast
    next
      case 2
      with Cons.IH obtain ps ss where "s = ps @ sub @ ss" by blast
      then have "c # s = (c # ps) @ sub @ ss" by simp
      then show ?thesis by blast
    qed
  next
    assume "\<exists>ps ss. c # s = ps @ sub @ ss"
    then obtain ps ss where eq: "c # s = ps @ sub @ ss" by blast
    show "str_contains sub (c # s)"
    proof (cases ps)
      case Nil
      with eq have "startswith (c # s) sub" by (auto simp: startswith_iff)
      then show ?thesis by simp
    next
      case (Cons p ps')
      with eq have "s = ps' @ sub @ ss" by simp
      with Cons.IH have "str_contains sub s" by blast
      then show ?thesis by simp
    qed
  qed
qed

lemma digit_value_digit_char: "d < 10 \<Longrightarrow> digit_value (digit_char d) = d"
proof -
  assume "d < 10"
  then have "d \<in> {0, 1, 2, 3, 4, 5, 6, 7, 8, 9}" by auto
  then show ?thesis
    by (auto simp: digit_value_def digit_char_def)
qed

lemma decimal_value_snoc: "decimal_value (s @ [c]) = 10 * decimal_value s + digit_value c"
  by (simp add: decimal_value_def)

lemma decimal_value_str_nat: "decimal_value (str_nat n) = n"
proof (induction n rule: str_nat.induct)
  case (1 n)
  show ?case
  proof (cases "n < 10")
    case True
    then show ?thesis
      by (simp add: decimal_value_def digit_value_digit_char)
  next
    case False
    with 1 have "decimal_value (str_nat (n div 10)) = n div 10" by simp
    with False show ?thesis
      by (subst str_nat.simps) (simp add: decimal_value_snoc digit_value_digit_char)
  qed
qed

section \<open>Properties of \<open>process_aware_scorer\<close>\<close>

lemma collect_tool_calls_filter:
  "collect_tool_calls acc (filter isinstance_ToolEvent evs) = Inr (acc @ tool_names evs)"
proof (induction evs arbitrary: acc)
  case Nil
  then show ?case by simp
next
  case (Cons e evs)
  then show ?case by (cases e) simp_all
qed

lemma length_tool_names:
  "length (tool_names evs) = length (filter isinstance_ToolEvent evs)"
proof (induction evs)
  case Nil
  then show ?case by simp
next
  case (Cons e evs)
  then show ?case by (cases e) simp_all
qed

lemma process_aware_scorer_eq:
  "process_aware_scorer state target =
     Inr \<lparr>score_value =
            final_score_of (adjusted_score (base_score_of state target) (tool_names (events state))),
          answer = completion (state_output state),
          explanation =
            explanation_of (events state) (filter isinstance_ModelEvent (events state))
              (tool_names (events state)),
          metadata =
            [''total_events'' \<mapsto> MInt (int (length (events state))),
             ''model_events'' \<mapsto> MInt (int (length (filter isinstance_ModelEvent (events state)))),
             ''tool_events'' \<mapsto> MInt (int (length (filter isinstance_ToolEvent (events state)))),
             ''tools_used'' \<mapsto> MStrList (tool_names (events state))]\<rparr>"
  using collect_tool_calls_filter[of "[]" "events state"]
  by (simp add: process_aware_scorer_def Let_def)

lemma final_score_of_clamp: "final_score_of x = clamp x 0 1"
  by (simp add: final_score_of_def py_max_def py_min_def clamp_def float_lit_0 float_lit_1)

lemma occurs_in_iff: "occurs_in sub s = str_contains sub s"
  by (simp add: occurs_in_def str_contains_iff)

lemmas float_consts =
  float_lit_0 float_lit_1 float_lit_tenth float_lit_fifth float_lit_fifth' add_0_tenth add_1_tenth
  sub_tenth_fifth sub_11_fifth

lemma clamp_bounds: "lo \<le> hi \<Longrightarrow> lo \<le> clamp x lo hi \<and> clamp x lo hi \<le> hi"
  by (simp add: clamp_def)

lemma base_score_of_occurs:
  "base_score_of state target =
     (if occurs_in (target_text target) (completion (state_output state)) then 1 else 0)"
  by (simp add: base_score_of_def occurs_in_def str_contains_iff float_lit_0 float_lit_1)

text \<open>
  Claim C1. For every event sequence, target and completion the scorer returns a score
  whose value is the clamp into \<open>[0.0, 1.0]\<close> of: the base (\<open>1.0\<close> if the target text
  occurs in the completion, else \<open>0.0\<close>) when there is no tool call; the base plus \<open>0.1\<close>
  when there are one to three tool calls; the base plus \<open>0.1\<close> minus \<open>0.2\<close> when there are
  more than three (both adjustments stack). Plus and minus are the float operations,
  applied in this order.
\<close>

theorem C1_value_rule:
  "\<exists>s. process_aware_scorer state target = Inr s \<and>
       score_value s =
         (let n = length (filter isinstance_ToolEvent (events state));
              base = (if occurs_in (target_text target) (completion (state_output state))
                      then float_lit 1 else float_lit 0)
          in clamp
               (if n = 0 then base
                else if n \<le> 3 then float_add base (float_lit (1 / 10))
                else float_sub (float_add base (float_lit (1 / 10))) (float_lit (2 / 10)))
               (float_lit 0) (float_lit 1))"
  by (simp add: process_aware_scorer_eq final_score_of_clamp base_score_of_occurs
      adjusted_score_def Let_def length_tool_names float_lit_0 float_lit_1)

theorem C1_value_rule_witness:
  "map_sum id score_value
     (process_aware_scorer
        \<lparr>events = [ToolEvent ''add'', ModelEvent, ToolEvent ''add'', ToolEvent ''multiply'',
                   OtherEvent ''state'', ToolEvent ''add''],
         state_output = \<lparr>completion = ''The answer is 42''\<rparr>\<rparr>
        \<lparr>target_text = ''42''\<rparr>)
   = Inr (4053239664633447 / 4503599627370496)"
  using C1_value_rule
    [of "\<lparr>events = [ToolEvent ''add'', ModelEvent, ToolEvent ''add'', ToolEvent ''multiply'',
                OtherEvent ''state'', ToolEvent ''add''],
      state_output = \<lparr>completion = ''The answer is 42''\<rparr>\<rparr>" "\<lparr>target_text = ''42''\<rparr>"]
  by (auto simp: occurs_in_iff Let_def clamp_def float_consts)

text \<open>
  Claim C3. For every input the value of the score that \<open>process_aware_scorer\<close> returns
  lies in the closed interval from \<open>0.0\<close> to \<open>1.0\<close>, whatever the arithmetic before the
  clamp gave.
\<close>

theorem C3_value_in_unit_interval:
  "\<exists>s. process_aware_scorer state target = Inr s \<and> 0 \<le> score_value s \<and> score_value s \<le> 1"
  using clamp_bounds[of 0 1] by (simp add: process_aware_scorer_eq final_score_of_clamp)

theorem C3_value_in_unit_interval_witness:
  "map_sum id score_value
     (process_aware_scorer
        \<lparr>events = [ToolEvent ''add''], state_output = \<lparr>completion = ''the answer is 42''\<rparr>\<rparr>
        \<lparr>target_text = ''42''\<rparr>)
   = Inr 1"
  using C3_value_in_unit_interval
    [of "\<lparr>events = [ToolEvent ''add''], state_output = \<lparr>completion = ''the answer is 42''\<rparr>\<rparr>"
        "\<lparr>target_text = ''42''\<rparr>"]
  by (auto simp: process_aware_scorer_eq final_score_of_clamp clamp_def adjusted_score_def
      base_score_of_def float_consts)

subsection \<open>The values the score can take\<close>

lemma pre_clamp_score_eq:
  "pre_clamp_score state target =
     Inr (adjusted_score (base_score_of state target) (tool_names (events state)))"
  using collect_tool_calls_filter[of "[]" "events state"]
  by (simp add: pre_clamp_score_def)

lemma score_value_of_pre_clamp:
  "map_sum id score_value (process_aware_scorer state target) =
   map_sum id final_score_of (pre_clamp_score state target)"
  by (simp add: process_aware_scorer_eq pre_clamp_score_eq)

lemma adjusted_score_cases:
  "adjusted_score b calls =
     (if length calls = 0 then b
      else if length calls \<le> 3 then float_add b (float_lit (1 / 10))
      else float_sub (float_add b (float_lit (1 / 10))) (float_lit (2 / 10)))"
  by (auto simp: adjusted_score_def Let_def)

lemma base_score_cases: "base_score_of state target = 0 \<or> base_score_of state target = 1"
  by (simp add: base_score_of_def float_consts)

lemma adjusted_values:
  "adjusted_score 0 calls =
     (if length calls = 0 then 0
      else if length calls \<le> 3 then 3602879701896397 / 36028797018963968
      else - (3602879701896397 / 36028797018963968))"
  "adjusted_score 1 calls =
     (if length calls = 0 then 1
      else if length calls \<le> 3 then 2476979795053773 / 2251799813685248
      else 4053239664633447 / 4503599627370496)"
  by (simp_all add: adjusted_score_cases float_consts)

text \<open>
  Claim C10, as amended. For every input the value of \<open>process_aware_scorer\<close> is one of
  four floats: \<open>0.0\<close>, \<open>0.1\<close>, \<open>1.0\<close>, and \<open>0.9000000000000001\<close>, the float
  \<open>8106479329266894 / 2^53\<close> that \<open>(1.0 + 0.1) - 0.2\<close> rounds to, one unit in the last
  place above the float \<open>0.9\<close>. The value before the clamp is one of \<open>-0.1\<close>, \<open>0.0\<close>,
  \<open>0.1\<close>, \<open>0.9000000000000001\<close>, \<open>1.0\<close>, \<open>1.1\<close>, and the clamp maps these into the four.
  The value is \<open>0.9000000000000001\<close> exactly when the target occurs in the completion
  and there are more than three tool calls.
\<close>

theorem C10_value_set:
  "\<exists>s p. process_aware_scorer state target = Inr s \<and>
       pre_clamp_score state target = Inr p \<and>
       p \<in> {- float_lit (1 / 10), float_lit 0, float_lit (1 / 10),
            8106479329266894 / 9007199254740992, float_lit 1, float_lit (11 / 10)} \<and>
       score_value s = clamp p (float_lit 0) (float_lit 1) \<and>
       score_value s \<in>
         {float_lit 0, float_lit (1 / 10), 8106479329266894 / 9007199254740992, float_lit 1} \<and>
       (score_value s = 8106479329266894 / 9007199254740992 \<longleftrightarrow>
          occurs_in (target_text target) (completion (state_output state)) \<and>
          3 < length (filter isinstance_ToolEvent (events state)))"
  using base_score_cases[of state target]
  by (auto simp: process_aware_scorer_eq pre_clamp_score_eq final_score_of_clamp clamp_def
      adjusted_values float_consts float_lit_eleven_tenths length_tool_names
      base_score_of_occurs split: if_splits)

theorem C10_value_set_witness:
  "map_sum id score_value
     (process_aware_scorer
        \<lparr>events = [ToolEvent ''add'', ToolEvent ''add''],
         state_output = \<lparr>completion = ''no idea''\<rparr>\<rparr>
        \<lparr>target_text = ''42''\<rparr>)
   = Inr (3602879701896397 / 36028797018963968)"
  using C10_value_set
    [of "\<lparr>events = [ToolEvent ''add'', ToolEvent ''add''],
         state_output = \<lparr>completion = ''no idea''\<rparr>\<rparr>" "\<lparr>target_text = ''42''\<rparr>"]
  by (auto simp: process_aware_scorer_eq final_score_of_clamp clamp_def adjusted_values
      base_score_of_def float_consts)

text \<open>
  Claim C10 as stated fails: with four tool calls and a matching completion the value
  is \<open>8106479329266894 / 2^53\<close>, which is none of \<open>0.0\<close>, \<open>0.1\<close>, \<open>0.9\<close>, \<open>1.0\<close>, read
  as floats or as exact decimals.
\<close>

theorem C10_counterexample:
  "map_sum id score_value
     (process_aware_scorer
        \<lparr>events = [ToolEvent ''add'', ToolEvent ''add'', ToolEvent ''add'', ToolEvent ''add''],
         state_output = \<lparr>completion = ''42''\<rparr>\<rparr>
        \<lparr>target_text = ''42''\<rparr>)
   = Inr (8106479329266894 / 9007199254740992) \<and>
   (8106479329266894 / 9007199254740992 :: rat) \<notin>
     {float_lit 0, float_lit (1 / 10), float_lit (9 / 10), float_lit 1} \<and>
   (8106479329266894 / 9007199254740992 :: rat) \<notin> {0, 1 / 10, 9 / 10, 1}"
  by (simp add: process_aware_scorer_eq final_score_of_clamp clamp_def adjusted_values
      base_score_of_def float_consts float_lit_nine_tenths)

subsection \<open>The effect of one more tool call\<close>

text \<open>
  Claim C7, as amended. With target and completion fixed, going from no tool call to
  one raises the value before the clamp by \<open>0.1\<close>, and going from three tool calls to
  four lowers it by \<open>0.2\<close>, each up to one float rounding (at most \<open>2^-53\<close>). The change
  is exactly the float \<open>0.1\<close> (the float \<open>0.2\<close>) when the base is \<open>0.0\<close>; when the base is
  \<open>1.0\<close> it is \<open>1.1 - 1.0\<close> and \<open>1.1 - 0.9000000000000001\<close>.
\<close>

theorem C7_adjustment_steps:
  assumes "length (filter isinstance_ToolEvent evs0) = 0"
    and "length (filter isinstance_ToolEvent evs1) = 1"
    and "length (filter isinstance_ToolEvent evs3) = 3"
    and "length (filter isinstance_ToolEvent evs4) = 4"
  shows "\<exists>p0 p1 p3 p4.
           pre_clamp_score (state\<lparr>events := evs0\<rparr>) target = Inr p0 \<and>
           pre_clamp_score (state\<lparr>events := evs1\<rparr>) target = Inr p1 \<and>
           pre_clamp_score (state\<lparr>events := evs3\<rparr>) target = Inr p3 \<and>
           pre_clamp_score (state\<lparr>events := evs4\<rparr>) target = Inr p4 \<and>
           \<bar>(p1 - p0) - 1 / 10\<bar> \<le> 1 / 2 ^ 53 \<and>
           \<bar>(p3 - p4) - 2 / 10\<bar> \<le> 1 / 2 ^ 53 \<and>
           (if occurs_in (target_text target) (completion (state_output state))
            then p1 - p0 = 225179981368525 / 2251799813685248 \<and>
                 p3 - p4 = 900719925474099 / 4503599627370496
            else p1 - p0 = float_lit (1 / 10) \<and> p3 - p4 = float_lit (2 / 10))"
  using assms
  by (simp add: pre_clamp_score_eq base_score_of_occurs adjusted_values length_tool_names
      float_consts)

theorem C7_adjustment_steps_witness:
  "pre_clamp_score
     \<lparr>events = [], state_output = \<lparr>completion = ''it is 7''\<rparr>\<rparr> \<lparr>target_text = ''42''\<rparr> = Inr 0 \<and>
   pre_clamp_score
     \<lparr>events = [ToolEvent ''add''], state_output = \<lparr>completion = ''it is 7''\<rparr>\<rparr>
     \<lparr>target_text = ''42''\<rparr> = Inr (float_lit (1 / 10)) \<and>
   pre_clamp_score
     \<lparr>events = [ToolEvent ''add'', ToolEvent ''add'', ToolEvent ''add''],
      state_output = \<lparr>completion = ''it is 7''\<rparr>\<rparr>
     \<lparr>target_text = ''42''\<rparr> = Inr (float_lit (1 / 10)) \<and>
   pre_clamp_score
     \<lparr>events = [ToolEvent ''add'', ToolEvent ''add'', ToolEvent ''add'', ToolEvent ''add''],
      state_output = \<lparr>completion = ''it is 7''\<rparr>\<rparr>
     \<lparr>target_text = ''42''\<rparr> = Inr (float_lit (1 / 10) - float_lit (2 / 10))"
  using C7_adjustment_steps
    [of "[]" "[ToolEvent ''add'']" "[ToolEvent ''add'', ToolEvent ''add'', ToolEvent ''add'']"
        "[ToolEvent ''add'', ToolEvent ''add'', ToolEvent ''add'', ToolEvent ''add'']"
        "\<lparr>events = [], state_output = \<lparr>completion = ''it is 7''\<rparr>\<rparr>" "\<lparr>target_text = ''42''\<rparr>"]
  by (simp add: pre_clamp_score_eq base_score_of_def adjusted_values float_consts)

text \<open>
  Claim C7 as stated fails when the target occurs in the completion: the value before
  the clamp goes from \<open>1.0\<close> to the float \<open>1.1\<close>, a rise that is not \<open>0.1\<close> (neither
  the decimal nor the float, computed exactly or by float subtraction), and from \<open>1.1\<close>
  to \<open>0.9000000000000001\<close>, a fall that is not \<open>0.2\<close>.
\<close>

theorem C7_counterexample:
  "pre_clamp_score
     \<lparr>events = [], state_output = \<lparr>completion = ''42''\<rparr>\<rparr> \<lparr>target_text = ''42''\<rparr> = Inr 1 \<and>
   pre_clamp_score
     \<lparr>events = [ToolEvent ''add''], state_output = \<lparr>completion = ''42''\<rparr>\<rparr>
     \<lparr>target_text = ''42''\<rparr> = Inr (2476979795053773 / 2251799813685248) \<and>
   (2476979795053773 / 2251799813685248 - 1 :: rat) \<noteq> 1 / 10 \<and>
   (2476979795053773 / 2251799813685248 - 1 :: rat) \<noteq> float_lit (1 / 10) \<and>
   float_sub (2476979795053773 / 2251799813685248) 1 \<noteq> float_lit (1 / 10) \<and>
   pre_clamp_score
     \<lparr>events = [ToolEvent ''add'', ToolEvent ''add'', ToolEvent ''add''],
      state_output = \<lparr>completion = ''42''\<rparr>\<rparr>
     \<lparr>target_text = ''42''\<rparr> = Inr (2476979795053773 / 2251799813685248) \<and>
   pre_clamp_score
     \<lparr>events = [ToolEvent ''add'', ToolEvent ''add'', ToolEvent ''add'', ToolEvent ''add''],
      state_output = \<lparr>completion = ''42''\<rparr>\<rparr>
     \<lparr>target_text = ''42''\<rparr> = Inr (4053239664633447 / 4503599627370496) \<and>
   (2476979795053773 / 2251799813685248 - 4053239664633447 / 4503599627370496 :: rat) \<noteq> 2 / 10 \<and>
   (2476979795053773 / 2251799813685248 - 4053239664633447 / 4503599627370496 :: rat)
     \<noteq> float_lit (2 / 10) \<and>
   float_sub (2476979795053773 / 2251799813685248) (4053239664633447 / 4503599627370496)
     \<noteq> float_lit (2 / 10)"
proof -
  have a: "float_sub (2476979795053773 / 2251799813685248) 1 = 225179981368525 / 2251799813685248"
    by code_simp
  have b: "float_sub (2476979795053773 / 2251799813685248) (4053239664633447 / 4503599627370496)
      = 900719925474099 / 4503599627370496"
    by code_simp
  show ?thesis
    by (simp add: pre_clamp_score_eq base_score_of_def adjusted_values float_consts a b)
qed

subsection \<open>Explanation, answer and metadata\<close>

text \<open>
  Claim C5. The explanation is \<open>Found N total events: M model calls, T tool calls. Tools
  used: X.\<close> with \<open>N\<close>, \<open>M\<close>, \<open>T\<close> the numbers of events, model events and tool calls in
  decimal, and \<open>X\<close> the tool calls joined by a comma and a space, or \<open>none\<close> when there
  is no tool call; the answer is the completion text.
\<close>

theorem C5_explanation_and_answer:
  "\<exists>s. process_aware_scorer state target = Inr s \<and>
       explanation s =
         ''Found '' @ str_int (int (length (events state))) @ '' total events: ''
         @ str_int (int (length (filter isinstance_ModelEvent (events state)))) @ '' model calls, ''
         @ str_int (int (length (tool_names (events state)))) @ '' tool calls. Tools used: ''
         @ (if tool_names (events state) = [] then ''none''
            else str_join '', '' (tool_names (events state)))
         @ ''.'' \<and>
       answer s = completion (state_output state)"
  by (simp add: process_aware_scorer_eq explanation_of_def)

lemma str_nat_digit: "n < 10 \<Longrightarrow> str_nat n = [digit_char n]"
  by simp

lemma str_int_small: "str_int 0 = ''0''" "str_int 1 = ''1''" "str_int 2 = ''2''" "str_int 3 = ''3''"
  by (simp_all add: str_int_def digit_char_def)

theorem C5_explanation_and_answer_witness:
  "map_sum id explanation
     (process_aware_scorer
        \<lparr>events = [ModelEvent, ToolEvent ''add'', OtherEvent ''state'', ToolEvent ''multiply''],
         state_output = \<lparr>completion = ''42''\<rparr>\<rparr>
        \<lparr>target_text = ''42''\<rparr>)
   = Inr ''Found 4 total events: 1 model calls, 2 tool calls. Tools used: add, multiply.'' \<and>
   map_sum id answer
     (process_aware_scorer
        \<lparr>events = [ModelEvent, ToolEvent ''add'', OtherEvent ''state'', ToolEvent ''multiply''],
         state_output = \<lparr>completion = ''42''\<rparr>\<rparr>
        \<lparr>target_text = ''42''\<rparr>)
   = Inr ''42''"
  using C5_explanation_and_answer
    [of "\<lparr>events = [ModelEvent, ToolEvent ''add'', OtherEvent ''state'', ToolEvent ''multiply''],
         state_output = \<lparr>completion = ''42''\<rparr>\<rparr>" "\<lparr>target_text = ''42''\<rparr>"]
  by (auto simp: str_int_def digit_char_def)

lemma kind_counts_le:
  "length (filter isinstance_ToolEvent evs) + length (filter isinstance_ModelEvent evs)
     \<le> length evs"
proof (induction evs)
  case Nil
  then show ?case by simp
next
  case (Cons e evs)
  then show ?case by (cases e) simp_all
qed

lemma kind_counts_eq_iff:
  "length (filter isinstance_ToolEvent evs) + length (filter isinstance_ModelEvent evs)
     = length evs \<longleftrightarrow> \<not> (\<exists>k. OtherEvent k \<in> set evs)"
proof (induction evs)
  case Nil
  then show ?case by simp
next
  case (Cons e evs)
  show ?case
  proof (cases e)
    case (ToolEvent f)
    with Cons show ?thesis by auto
  next
    case ModelEvent
    with Cons show ?thesis by auto
  next
    case (OtherEvent k)
    with kind_counts_le[of evs] show ?thesis by auto
  qed
qed

text \<open>
  Claim C6. The metadata has the four keys \<open>total_events\<close>, \<open>model_events\<close>,
  \<open>tool_events\<close> and \<open>tools_used\<close>: the length of the event sequence, the numbers of
  model and of tool events, and the function names of the tool events in order of
  occurrence, duplicates kept. Tool and model events together are at most all events,
  and exactly all of them if and only if no event of another kind is present.
\<close>

theorem C6_metadata_counts:
  "\<exists>s total model tool.
     process_aware_scorer state target = Inr s \<and>
     dom (metadata s) = {''total_events'', ''model_events'', ''tool_events'', ''tools_used''} \<and>
     metadata s ''total_events'' = Some (MInt total) \<and>
     metadata s ''model_events'' = Some (MInt model) \<and>
     metadata s ''tool_events'' = Some (MInt tool) \<and>
     metadata s ''tools_used'' = Some (MStrList (tool_names (events state))) \<and>
     total = int (length (events state)) \<and>
     model = int (length (filter isinstance_ModelEvent (events state))) \<and>
     tool = int (length (filter isinstance_ToolEvent (events state))) \<and>
     tool + model \<le> total \<and>
     (tool + model = total \<longleftrightarrow> \<not> (\<exists>k. OtherEvent k \<in> set (events state)))"
  using kind_counts_le[of "events state"] kind_counts_eq_iff[of "events state"]
  by (simp add: process_aware_scorer_eq insert_commute flip: of_nat_add)

theorem C6_metadata_counts_witness:
  "map_sum id metadata
     (process_aware_scorer
        \<lparr>events = [ToolEvent ''add'', ModelEvent, OtherEvent ''state'', ToolEvent ''add''],
         state_output = \<lparr>completion = ''42''\<rparr>\<rparr>
        \<lparr>target_text = ''42''\<rparr>)
   = Inr [''total_events'' \<mapsto> MInt 4, ''model_events'' \<mapsto> MInt 1,
          ''tool_events'' \<mapsto> MInt 2, ''tools_used'' \<mapsto> MStrList [''add'', ''add'']]"
  using C6_metadata_counts
    [of "\<lparr>events = [ToolEvent ''add'', ModelEvent, OtherEvent ''state'', ToolEvent ''add''],
         state_output = \<lparr>completion = ''42''\<rparr>\<rparr>" "\<lparr>target_text = ''42''\<rparr>"]
  by (simp add: process_aware_scorer_eq)

section \<open>Properties of \<open>step_verification_scorer\<close>\<close>

lemma any_function_is_add_filter:
  "any_function_is_add (filter isinstance_ToolEvent evs) = Inr (ToolEvent ''add'' \<in> set evs)"
proof (induction evs)
  case Nil
  then show ?case by simp
next
  case (Cons e evs)
  then show ?case by (cases e) auto
qed

lemma step_verification_scorer_eq:
  "step_verification_scorer state target =
     Inr \<lparr>score_value =
            (if str_contains (target_text target) (completion (state_output state))
             then if ToolEvent ''add'' \<in> set (events state) then 1 else 1 / 2
             else if ToolEvent ''add'' \<in> set (events state)
                  then 5404319552844595 / 18014398509481984 else 0),
          answer = completion (state_output state),
          explanation =
            (if str_contains (target_text target) (completion (state_output state))
             then if ToolEvent ''add'' \<in> set (events state)
                  then ''Correct answer and used required add tool''
                  else ''Correct answer but did not use required add tool''
             else if ToolEvent ''add'' \<in> set (events state)
                  then ''Used required add tool but incorrect answer''
                  else ''Incorrect answer and did not use required add tool''),
          metadata = [''add_tool_used'' \<mapsto> MBool (ToolEvent ''add'' \<in> set (events state))]\<rparr>"
  by (simp add: step_verification_scorer_def any_function_is_add_filter Let_def
      float_lit_0 float_lit_1 float_lit_half' float_lit_three_tenths)

text \<open>
  Claim C2, as amended. \<open>step_verification_scorer\<close> returns value and explanation by the
  table on (correct, required tool used): (true, true) gives \<open>1.0\<close> and \<open>Correct answer
  and used required add tool\<close>; (true, false) gives \<open>0.5\<close> and \<open>Correct answer but did
  not use required add tool\<close>; (false, true) gives \<open>0.3\<close> and \<open>Used required add tool
  but incorrect answer\<close>; (false, false) gives \<open>0.0\<close> and \<open>Incorrect answer and did not
  use required add tool\<close>. So the value is one of the floats \<open>0.0\<close>, \<open>0.3\<close>, \<open>0.5\<close>,
  \<open>1.0\<close>.
\<close>

theorem C2_decision_table:
  "\<exists>s. step_verification_scorer state target = Inr s \<and>
       (score_value s, explanation s) =
         (let correct = occurs_in (target_text target) (completion (state_output state));
              required_used = (ToolEvent ''add'' \<in> set (events state))
          in if correct \<and> required_used
               then (float_lit 1, ''Correct answer and used required add tool'')
             else if correct \<and> \<not> required_used
               then (float_lit (5 / 10), ''Correct answer but did not use required add tool'')
             else if \<not> correct \<and> required_used
               then (float_lit (3 / 10), ''Used required add tool but incorrect answer'')
             else (float_lit 0, ''Incorrect answer and did not use required add tool'')) \<and>
       score_value s \<in> {float_lit 0, float_lit (3 / 10), float_lit (5 / 10), float_lit 1}"
  by (simp add: step_verification_scorer_eq Let_def occurs_in_iff float_lit_0 float_lit_1
      float_lit_half' float_lit_three_tenths)

theorem C2_decision_table_witness:
  "map_sum id (\<lambda>s. (score_value s, explanation s))
     (step_verification_scorer
        \<lparr>events = [ModelEvent, ToolEvent ''multiply''],
         state_output = \<lparr>completion = ''The answer is 15''\<rparr>\<rparr>
        \<lparr>target_text = ''15''\<rparr>)
   = Inr (1 / 2, ''Correct answer but did not use required add tool'')"
  using C2_decision_table
    [of "\<lparr>events = [ModelEvent, ToolEvent ''multiply''],
         state_output = \<lparr>completion = ''The answer is 15''\<rparr>\<rparr>" "\<lparr>target_text = ''15''\<rparr>"]
  by (auto simp: occurs_in_iff Let_def float_lit_half')

text \<open>
  Claim C2 as stated fails on the explanation: for a correct answer with the \<open>add\<close>
  tool used the code's text names the tool (\<open>... used required add tool\<close>), and is not
  the text \<open>Correct answer and used required tool\<close> of the table.
\<close>

theorem C2_counterexample:
  "map_sum id explanation
     (step_verification_scorer
        \<lparr>events = [ToolEvent ''add''], state_output = \<lparr>completion = ''15''\<rparr>\<rparr>
        \<lparr>target_text = ''15''\<rparr>)
   = Inr ''Correct answer and used required add tool'' \<and>
   map_sum id explanation
     (step_verification_scorer
        \<lparr>events = [ToolEvent ''add''], state_output = \<lparr>completion = ''15''\<rparr>\<rparr>
        \<lparr>target_text = ''15''\<rparr>)
   \<noteq> Inr ''Correct answer and used required tool''"
  by (simp add: step_verification_scorer_eq)

text \<open>
  Claim C4, as amended. The metadata of \<open>step_verification_scorer\<close> is the single-entry
  mapping from the key \<open>add_tool_used\<close> to the truth value of: some tool event's function
  name equals \<open>add\<close>.
\<close>

theorem C4_required_tool_metadata:
  "\<exists>s. step_verification_scorer state target = Inr s \<and>
       metadata s =
         [''add_tool_used'' \<mapsto>
            MBool (\<exists>e \<in> set (events state). isinstance_ToolEvent e \<and> event_function e = Inr ''add'')]"
proof -
  have "(\<exists>e \<in> set (events state). isinstance_ToolEvent e \<and> event_function e = Inr ''add'')
      \<longleftrightarrow> ToolEvent ''add'' \<in> set (events state)" (is "?l \<longleftrightarrow> ?r")
  proof
    assume ?l
    then obtain e where e: "e \<in> set (events state)" "event_function e = Inr ''add''" by blast
    from e(2) have "e = ToolEvent ''add''" by (cases e) simp_all
    with e(1) show ?r by simp
  next
    assume ?r
    then show ?l by force
  qed
  then show ?thesis
    by (simp add: step_verification_scorer_eq Let_def)
qed

theorem C4_required_tool_metadata_witness:
  "map_sum id metadata
     (step_verification_scorer
        \<lparr>events = [ModelEvent, ToolEvent ''multiply'', ToolEvent ''add''],
         state_output = \<lparr>completion = ''The answer is 15''\<rparr>\<rparr>
        \<lparr>target_text = ''15''\<rparr>)
   = Inr [''add_tool_used'' \<mapsto> MBool True]"
  using C4_required_tool_metadata
    [of "\<lparr>events = [ModelEvent, ToolEvent ''multiply'', ToolEvent ''add''],
         state_output = \<lparr>completion = ''The answer is 15''\<rparr>\<rparr>" "\<lparr>target_text = ''15''\<rparr>"]
  by auto

text \<open>
  Claim C4 as stated fails on the key: the metadata has the key \<open>add_tool_used\<close> and no
  entry under \<open>required_tool_used\<close>.
\<close>

theorem C4_counterexample:
  "map_sum id metadata
     (step_verification_scorer
        \<lparr>events = [ToolEvent ''add''], state_output = \<lparr>completion = ''15''\<rparr>\<rparr>
        \<lparr>target_text = ''15''\<rparr>)
   = Inr [''add_tool_used'' \<mapsto> MBool True] \<and>
   [''add_tool_used'' \<mapsto> MBool True] ''required_tool_used'' = None \<and>
   [''required_tool_used'' \<mapsto> MBool True] ''required_tool_used'' = Some (MBool True)"
  by (simp add: step_verification_scorer_eq)

section \<open>Totality and events of other kinds\<close>

lemma tool_names_append: "tool_names (xs @ ys) = tool_names xs @ tool_names ys"
proof (induction xs)
  case Nil
  then show ?case by simp
next
  case (Cons e xs)
  then show ?case by (cases e) simp_all
qed

text \<open>
  Claim C8. Both scorers return a score on every input: the attribute error of
  \<open>e.function\<close> cannot occur, because only tool events are asked for it. For the empty
  event sequence with target \<open>42\<close> and completion \<open>42\<close>, \<open>process_aware_scorer\<close> gives the
  value \<open>1.0\<close>, no tools used and the explanation with zero counts and \<open>none\<close>. An event
  of another kind, put anywhere in the sequence, leaves the tool and model counts, the
  tools used and the value as they were and adds one to \<open>total_events\<close>.
\<close>

theorem C8_total_and_unrecognised_kinds:
  "(\<exists>s. process_aware_scorer state target = Inr s) \<and>
   (\<exists>s. step_verification_scorer state target = Inr s) \<and>
   process_aware_scorer
     \<lparr>events = [], state_output = \<lparr>completion = ''42''\<rparr>\<rparr> \<lparr>target_text = ''42''\<rparr>
   = Inr \<lparr>score_value = float_lit 1, answer = ''42'',
          explanation = ''Found 0 total events: 0 model calls, 0 tool calls. Tools used: none.'',
          metadata = [''total_events'' \<mapsto> MInt 0, ''model_events'' \<mapsto> MInt 0,
                      ''tool_events'' \<mapsto> MInt 0, ''tools_used'' \<mapsto> MStrList []]\<rparr> \<and>
   (\<exists>s s'.
      process_aware_scorer (state\<lparr>events := evs1 @ evs2\<rparr>) target = Inr s \<and>
      process_aware_scorer (state\<lparr>events := evs1 @ OtherEvent k # evs2\<rparr>) target = Inr s' \<and>
      metadata s' ''tool_events'' = metadata s ''tool_events'' \<and>
      metadata s' ''model_events'' = metadata s ''model_events'' \<and>
      metadata s' ''tools_used'' = metadata s ''tools_used'' \<and>
      metadata s ''total_events'' = Some (MInt (int (length (evs1 @ evs2)))) \<and>
      metadata s' ''total_events'' = Some (MInt (int (length (evs1 @ evs2)) + 1)) \<and>
      score_value s' = score_value s)"
proof -
  have a: "\<exists>s. process_aware_scorer state target = Inr s"
    by (simp add: process_aware_scorer_eq)
  have b: "\<exists>s. step_verification_scorer state target = Inr s"
    by (simp add: step_verification_scorer_eq)
  have c: "process_aware_scorer
     \<lparr>events = [], state_output = \<lparr>completion = ''42''\<rparr>\<rparr> \<lparr>target_text = ''42''\<rparr>
   = Inr \<lparr>score_value = float_lit 1, answer = ''42'',
          explanation = ''Found 0 total events: 0 model calls, 0 tool calls. Tools used: none.'',
          metadata = [''total_events'' \<mapsto> MInt 0, ''model_events'' \<mapsto> MInt 0,
                      ''tool_events'' \<mapsto> MInt 0, ''tools_used'' \<mapsto> MStrList []]\<rparr>"
    by (simp add: process_aware_scorer_eq final_score_of_clamp clamp_def adjusted_values
        base_score_of_def float_consts explanation_of_def str_int_def digit_char_def)
  have d: "\<exists>s s'.
      process_aware_scorer (state\<lparr>events := evs1 @ evs2\<rparr>) target = Inr s \<and>
      process_aware_scorer (state\<lparr>events := evs1 @ OtherEvent k # evs2\<rparr>) target = Inr s' \<and>
      metadata s' ''tool_events'' = metadata s ''tool_events'' \<and>
      metadata s' ''model_events'' = metadata s ''model_events'' \<and>
      metadata s' ''tools_used'' = metadata s ''tools_used'' \<and>
      metadata s ''total_events'' = Some (MInt (int (length (evs1 @ evs2)))) \<and>
      metadata s' ''total_events'' = Some (MInt (int (length (evs1 @ evs2)) + 1)) \<and>
      score_value s' = score_value s"
    by (simp add: process_aware_scorer_eq tool_names_append base_score_of_def)
  from a b c d show ?thesis by blast
qed

theorem C8_total_and_unrecognised_kinds_witness:
  "map_sum id metadata
     (process_aware_scorer
        \<lparr>events = [ToolEvent ''add''] @ OtherEvent ''span'' # [ModelEvent],
         state_output = \<lparr>completion = ''42''\<rparr>\<rparr>
        \<lparr>target_text = ''42''\<rparr>)
   = Inr [''total_events'' \<mapsto> MInt 3, ''model_events'' \<mapsto> MInt 1,
          ''tool_events'' \<mapsto> MInt 1, ''tools_used'' \<mapsto> MStrList [''add'']] \<and>
   map_sum id metadata
     (process_aware_scorer
        \<lparr>events = [ToolEvent ''add''] @ [ModelEvent],
         state_output = \<lparr>completion = ''42''\<rparr>\<rparr>
        \<lparr>target_text = ''42''\<rparr>)
   = Inr [''total_events'' \<mapsto> MInt 2, ''model_events'' \<mapsto> MInt 1,
          ''tool_events'' \<mapsto> MInt 1, ''tools_used'' \<mapsto> MStrList [''add'']]"
  using C8_total_and_unrecognised_kinds
    [of "\<lparr>events = [], state_output = \<lparr>completion = ''42''\<rparr>\<rparr>" "\<lparr>target_text = ''42''\<rparr>"
        "[ToolEvent ''add'']" "[ModelEvent]" "''span''"]
  by (simp add: process_aware_scorer_eq)

section \<open>The scorers on the store: what they change and what they return\<close>

declare append_functions.simps [simp del]

lemma event_list_at_append:
  "event_list_at (st @ new) a =
     (if a < length st then event_list_at st a else event_list_at new (a - length st))"
  by (auto simp: event_list_at_def nth_append)

lemma str_list_at_append:
  "str_list_at (st @ new) a =
     (if a < length st then str_list_at st a else str_list_at new (a - length st))"
  by (auto simp: str_list_at_def nth_append)

lemma event_list_at_Some_less: "event_list_at st a = Some es \<Longrightarrow> a < length st"
  by (simp add: event_list_at_def split: if_splits)

lemma tool_names_drop:
  "i < length es \<Longrightarrow> event_function (es ! i) = Inr f \<Longrightarrow>
   tool_names (drop i es) = f # tool_names (drop (Suc i) es)"
  by (cases "es ! i") (simp_all add: Cons_nth_drop_Suc[symmetric])

lemma event_function_filtered:
  "i < length (filter isinstance_ToolEvent evs) \<Longrightarrow>
   \<exists>f. event_function (filter isinstance_ToolEvent evs ! i) = Inr f"
proof -
  assume "i < length (filter isinstance_ToolEvent evs)"
  then have "filter isinstance_ToolEvent evs ! i \<in> set (filter isinstance_ToolEvent evs)"
    by (rule nth_mem)
  then have "isinstance_ToolEvent (filter isinstance_ToolEvent evs ! i)" by simp
  then show ?thesis by (cases "filter isinstance_ToolEvent evs ! i") simp_all
qed

lemma append_functions_run:
  assumes "st ! te = EventList (filter isinstance_ToolEvent evs)" "te < length st"
    and "st ! tc = StrList xs" "tc < length st"
  shows "append_functions st te tc i =
           Some (Inr (), st[tc := StrList (xs @ tool_names (drop i (filter isinstance_ToolEvent evs)))])"
  using assms
proof (induction "length (filter isinstance_ToolEvent evs) - i" arbitrary: i st xs)
  case 0
  then have "\<not> i < length (filter isinstance_ToolEvent evs)" by simp
  moreover from 0 have "st[tc := StrList xs] = st" by (metis list_update_id)
  ultimately show ?case using 0
    by (subst append_functions.simps) (simp add: event_list_at_def)
next
  case (Suc n)
  let ?es = "filter isinstance_ToolEvent evs"
  from Suc.hyps(2) have i: "i < length ?es" by simp
  obtain f where f: "event_function (?es ! i) = Inr f"
    using event_function_filtered[OF i] by blast
  have ne: "te \<noteq> tc" using Suc.prems by auto
  let ?st' = "st[tc := StrList (xs @ [f])]"
  have la: "list_append st tc f = Some ?st'"
    using Suc.prems by (simp add: list_append_def str_list_at_def)
  have n: "n = length ?es - Suc i" using Suc.hyps(2) by simp
  have rec: "append_functions ?st' te tc (Suc i) =
      Some (Inr (), ?st'[tc := StrList ((xs @ [f]) @ tool_names (drop (Suc i) ?es))])"
    using Suc.prems ne by (intro Suc.hyps(1)[OF n]) simp_all
  show ?case
    using i f la rec Suc.prems
    by (subst append_functions.simps) (simp add: event_list_at_def tool_names_drop)
qed

lemma tool_names_filter: "tool_names (filter isinstance_ToolEvent evs) = tool_names evs"
proof (induction evs)
  case Nil
  then show ?case by simp
next
  case (Cons e evs)
  then show ?case by (cases e) simp_all
qed

lemma process_aware_scorer_on_eq:
  assumes evs: "event_list_at st (events_ref sr) = Some evs"
  shows "process_aware_scorer_on st sr target =
     Some (Inr \<lparr>score_value_ref =
                  final_score_of
                    (adjusted_score
                       (if str_contains (target_text target) (completion (output_ref sr))
                        then float_lit 1 else float_lit 0)
                       (tool_names evs)),
                answer_ref = completion (output_ref sr),
                explanation_ref =
                  explanation_of evs (filter isinstance_ModelEvent evs) (tool_names evs),
                metadata_ref =
                  [''total_events'' \<mapsto> RInt (int (length evs)),
                   ''model_events'' \<mapsto> RInt (int (length (filter isinstance_ModelEvent evs))),
                   ''tool_events'' \<mapsto> RInt (int (length (filter isinstance_ToolEvent evs))),
                   ''tools_used'' \<mapsto> RList (length st + 2)]\<rparr>,
           st @ [EventList (filter isinstance_ToolEvent evs),
                 EventList (filter isinstance_ModelEvent evs),
                 StrList (tool_names evs)])"
proof -
  let ?tevs = "filter isinstance_ToolEvent evs"
  let ?mevs = "filter isinstance_ModelEvent evs"
  let ?st3 = "st @ [EventList ?tevs, EventList ?mevs, StrList []]"
  let ?st4 = "st @ [EventList ?tevs, EventList ?mevs, StrList (tool_names evs)]"
  have a: "events_ref sr < length st" using evs by (rule event_list_at_Some_less)
  have "append_functions ?st3 (length st) (length st + 2) 0 =
      Some (Inr (), ?st3[length st + 2 := StrList ([] @ tool_names (drop 0 ?tevs))])"
    by (rule append_functions_run) (simp_all add: nth_append)
  then have loop: "append_functions ?st3 (length st) (length st + 2) 0 = Some (Inr (), ?st4)"
    by (simp add: tool_names_filter list_update_append)
  have reads:
    "event_list_at (st @ [EventList ?tevs]) (events_ref sr) = Some evs"
    "str_list_at ?st4 (length st + 2) = Some (tool_names evs)"
    "event_list_at ?st4 (events_ref sr) = Some evs"
    "event_list_at ?st4 (length st + 1) = Some ?mevs"
    "event_list_at ?st4 (length st) = Some ?tevs"
    using a evs by (simp_all add: event_list_at_append str_list_at_append)
      (simp_all add: event_list_at_def str_list_at_def)
  show ?thesis
    using evs reads loop
    by (simp add: process_aware_scorer_on_def new_obj_def)
qed

lemma step_verification_scorer_on_eq:
  assumes evs: "event_list_at st (events_ref sr) = Some evs"
  shows "step_verification_scorer_on st sr target =
     Some (Inr \<lparr>score_value_ref =
                  (if str_contains (target_text target) (completion (output_ref sr))
                   then if ToolEvent ''add'' \<in> set evs then 1 else 1 / 2
                   else if ToolEvent ''add'' \<in> set evs
                        then 5404319552844595 / 18014398509481984 else 0),
                answer_ref = completion (output_ref sr),
                explanation_ref =
                  (if str_contains (target_text target) (completion (output_ref sr))
                   then if ToolEvent ''add'' \<in> set evs
                        then ''Correct answer and used required add tool''
                        else ''Correct answer but did not use required add tool''
                   else if ToolEvent ''add'' \<in> set evs
                        then ''Used required add tool but incorrect answer''
                        else ''Incorrect answer and did not use required add tool''),
                metadata_ref = [''add_tool_used'' \<mapsto> RBool (ToolEvent ''add'' \<in> set evs)]\<rparr>,
           st @ [EventList (filter isinstance_ToolEvent evs)])"
proof -
  have "event_list_at (st @ [EventList (filter isinstance_ToolEvent evs)]) (length st)
      = Some (filter isinstance_ToolEvent evs)"
    by (simp add: event_list_at_def)
  then show ?thesis
    using evs
    by (simp add: step_verification_scorer_on_def new_obj_def any_function_is_add_filter
        float_lit_0 float_lit_1 float_lit_half' float_lit_three_tenths)
qed

lemma load_state_Some:
  "load_state st sr = Some state \<longleftrightarrow>
     event_list_at st (events_ref sr) = Some (events state) \<and>
     state = \<lparr>events = events state, state_output = output_ref sr\<rparr>"
  by (auto simp: load_state_def split: option.splits)

lemma load_state_append:
  "load_state st sr = Some state \<Longrightarrow> load_state (st @ new) sr = Some state"
  by (auto simp: load_state_def event_list_at_append dest: event_list_at_Some_less
      split: option.splits)

lemma load_score_A:
  assumes "load_state st sr = Some state"
  shows "\<exists>r new. process_aware_scorer_on st sr target = Some (Inr r, st @ new) \<and>
           process_aware_scorer state target = Inr (load_score (st @ new) r)"
proof -
  from assms have evs: "event_list_at st (events_ref sr) = Some (events state)"
    and out: "state_output state = output_ref sr"
    by (auto simp: load_state_def split: option.splits)
  have "str_list_at (st @ [EventList (filter isinstance_ToolEvent (events state)),
                 EventList (filter isinstance_ModelEvent (events state)),
                 StrList (tool_names (events state))]) (length st + 2)
        = Some (tool_names (events state))"
    by (simp add: str_list_at_def nth_append)
  then have "process_aware_scorer state target =
      Inr (load_score
        (st @ [EventList (filter isinstance_ToolEvent (events state)),
                 EventList (filter isinstance_ModelEvent (events state)),
                 StrList (tool_names (events state))])
        \<lparr>score_value_ref =
                  final_score_of
                    (adjusted_score
                       (if str_contains (target_text target) (completion (output_ref sr))
                        then float_lit 1 else float_lit 0)
                       (tool_names (events state))),
                answer_ref = completion (output_ref sr),
                explanation_ref =
                  explanation_of (events state) (filter isinstance_ModelEvent (events state)) (tool_names (events state)),
                metadata_ref =
                  [''total_events'' \<mapsto> RInt (int (length (events state))),
                   ''model_events'' \<mapsto> RInt (int (length (filter isinstance_ModelEvent (events state)))),
                   ''tool_events'' \<mapsto> RInt (int (length (filter isinstance_ToolEvent (events state)))),
                   ''tools_used'' \<mapsto> RList (length st + 2)]\<rparr>)"
    by (simp add: process_aware_scorer_eq load_score_def out base_score_of_def fun_eq_iff)
  with process_aware_scorer_on_eq[OF evs, of target] show ?thesis by blast
qed

lemma load_score_B:
  assumes "load_state st sr = Some state"
  shows "\<exists>r new. step_verification_scorer_on st sr target = Some (Inr r, st @ new) \<and>
           step_verification_scorer state target = Inr (load_score (st @ new) r)"
proof -
  from assms have evs: "event_list_at st (events_ref sr) = Some (events state)"
    and out: "state_output state = output_ref sr"
    by (auto simp: load_state_def split: option.splits)
  have "step_verification_scorer state target =
      Inr (load_score (st @ [EventList (filter isinstance_ToolEvent (events state))])
        \<lparr>score_value_ref =
                  (if str_contains (target_text target) (completion (output_ref sr))
                   then if ToolEvent ''add'' \<in> set (events state) then 1 else 1 / 2
                   else if ToolEvent ''add'' \<in> set (events state)
                        then 5404319552844595 / 18014398509481984 else 0),
                answer_ref = completion (output_ref sr),
                explanation_ref =
                  (if str_contains (target_text target) (completion (output_ref sr))
                   then if ToolEvent ''add'' \<in> set (events state)
                        then ''Correct answer and used required add tool''
                        else ''Correct answer but did not use required add tool''
                   else if ToolEvent ''add'' \<in> set (events state)
                        then ''Used required add tool but incorrect answer''
                        else ''Incorrect answer and did not use required add tool''),
                metadata_ref = [''add_tool_used'' \<mapsto> RBool (ToolEvent ''add'' \<in> set (events state))]\<rparr>)"
    by (simp add: step_verification_scorer_eq load_score_def out fun_eq_iff)
  with step_verification_scorer_on_eq[OF evs, of target] show ?thesis by blast
qed

text \<open>
  Claim C9. Both scorers are functions of the contents of their inputs and change none
  of them. Take two invocations, in any two stores, on states that denote the same
  events and completion, with the same target (the second store may be the one the first
  invocation left behind). Both return a score; each leaves every object that was in its
  store as it was and only adds new objects behind them, so each state still denotes
  what it did; and the two scores, with their lists read from the stores, are
  equal in value, answer, explanation and metadata, namely the score the scorer computes
  from the events, the completion and the target alone.
\<close>

theorem C9_deterministic_and_no_mutation:
  assumes "load_state st1 sr1 = Some state" and "load_state st2 sr2 = Some state"
  shows
    "(\<exists>r1 new1 r2 new2.
        process_aware_scorer_on st1 sr1 target = Some (Inr r1, st1 @ new1) \<and>
        process_aware_scorer_on st2 sr2 target = Some (Inr r2, st2 @ new2) \<and>
        load_score (st1 @ new1) r1 = load_score (st2 @ new2) r2 \<and>
        process_aware_scorer state target = Inr (load_score (st1 @ new1) r1) \<and>
        load_state (st1 @ new1) sr1 = Some state \<and>
        load_state (st2 @ new2) sr2 = Some state) \<and>
     (\<exists>r1 new1 r2 new2.
        step_verification_scorer_on st1 sr1 target = Some (Inr r1, st1 @ new1) \<and>
        step_verification_scorer_on st2 sr2 target = Some (Inr r2, st2 @ new2) \<and>
        load_score (st1 @ new1) r1 = load_score (st2 @ new2) r2 \<and>
        step_verification_scorer state target = Inr (load_score (st1 @ new1) r1) \<and>
        load_state (st1 @ new1) sr1 = Some state \<and>
        load_state (st2 @ new2) sr2 = Some state)"
proof
  obtain r1 new1 where 1:
    "process_aware_scorer_on st1 sr1 target = Some (Inr r1, st1 @ new1)"
    "process_aware_scorer state target = Inr (load_score (st1 @ new1) r1)"
    using load_score_A[OF assms(1)] by blast
  obtain r2 new2 where 2:
    "process_aware_scorer_on st2 sr2 target = Some (Inr r2, st2 @ new2)"
    "process_aware_scorer state target = Inr (load_score (st2 @ new2) r2)"
    using load_score_A[OF assms(2)] by blast
  from 1(2) 2(2) have "load_score (st1 @ new1) r1 = load_score (st2 @ new2) r2" by simp
  with 1 2 load_state_append[OF assms(1)] load_state_append[OF assms(2)]
  show "\<exists>r1 new1 r2 new2.
        process_aware_scorer_on st1 sr1 target = Some (Inr r1, st1 @ new1) \<and>
        process_aware_scorer_on st2 sr2 target = Some (Inr r2, st2 @ new2) \<and>
        load_score (st1 @ new1) r1 = load_score (st2 @ new2) r2 \<and>
        process_aware_scorer state target = Inr (load_score (st1 @ new1) r1) \<and>
        load_state (st1 @ new1) sr1 = Some state \<and>
        load_state (st2 @ new2) sr2 = Some state"
    by blast
next
  obtain r1 new1 where 1:
    "step_verification_scorer_on st1 sr1 target = Some (Inr r1, st1 @ new1)"
    "step_verification_scorer state target = Inr (load_score (st1 @ new1) r1)"
    using load_score_B[OF assms(1)] by blast
  obtain r2 new2 where 2:
    "step_verification_scorer_on st2 sr2 target = Some (Inr r2, st2 @ new2)"
    "step_verification_scorer state target = Inr (load_score (st2 @ new2) r2)"
    using load_score_B[OF assms(2)] by blast
  from 1(2) 2(2) have "load_score (st1 @ new1) r1 = load_score (st2 @ new2) r2" by simp
  with 1 2 load_state_append[OF assms(1)] load_state_append[OF assms(2)]
  show "\<exists>r1 new1 r2 new2.
        step_verification_scorer_on st1 sr1 target = Some (Inr r1, st1 @ new1) \<and>
        step_verification_scorer_on st2 sr2 target = Some (Inr r2, st2 @ new2) \<and>
        load_score (st1 @ new1) r1 = load_score (st2 @ new2) r2 \<and>
        step_verification_scorer state target = Inr (load_score (st1 @ new1) r1) \<and>
        load_state (st1 @ new1) sr1 = Some state \<and>
        load_state (st2 @ new2) sr2 = Some state"
    by blast
qed

theorem C9_deterministic_and_no_mutation_witness:
  "load_state [StrList [''x''], EventList [ToolEvent ''add'', ModelEvent]]
     \<lparr>events_ref = 1, output_ref = \<lparr>completion = ''42''\<rparr>\<rparr>
   = Some \<lparr>events = [ToolEvent ''add'', ModelEvent], state_output = \<lparr>completion = ''42''\<rparr>\<rparr> \<and>
   process_aware_scorer_on [StrList [''x''], EventList [ToolEvent ''add'', ModelEvent]]
     \<lparr>events_ref = 1, output_ref = \<lparr>completion = ''42''\<rparr>\<rparr> \<lparr>target_text = ''42''\<rparr>
   = Some (Inr \<lparr>score_value_ref = 1, answer_ref = ''42'',
                explanation_ref =
                  ''Found 2 total events: 1 model calls, 1 tool calls. Tools used: add.'',
                metadata_ref =
                  [''total_events'' \<mapsto> RInt 2, ''model_events'' \<mapsto> RInt 1,
                   ''tool_events'' \<mapsto> RInt 1, ''tools_used'' \<mapsto> RList 4]\<rparr>,
           [StrList [''x''], EventList [ToolEvent ''add'', ModelEvent],
            EventList [ToolEvent ''add''], EventList [ModelEvent], StrList [''add'']]) \<and>
   process_aware_scorer_on
     [StrList [''x''], EventList [ToolEvent ''add'', ModelEvent],
      EventList [ToolEvent ''add''], EventList [ModelEvent], StrList [''add'']]
     \<lparr>events_ref = 1, output_ref = \<lparr>completion = ''42''\<rparr>\<rparr> \<lparr>target_text = ''42''\<rparr>
   = Some (Inr \<lparr>score_value_ref = 1, answer_ref = ''42'',
                explanation_ref =
                  ''Found 2 total events: 1 model calls, 1 tool calls. Tools used: add.'',
                metadata_ref =
                  [''total_events'' \<mapsto> RInt 2, ''model_events'' \<mapsto> RInt 1,
                   ''tool_events'' \<mapsto> RInt 1, ''tools_used'' \<mapsto> RList 7]\<rparr>,
           [StrList [''x''], EventList [ToolEvent ''add'', ModelEvent],
            EventList [ToolEvent ''add''], EventList [ModelEvent], StrList [''add''],
            EventList [ToolEvent ''add''], EventList [ModelEvent], StrList [''add'']])"
proof -
  let ?st1 = "[StrList [''x''], EventList [ToolEvent ''add'', ModelEvent]]"
  let ?st2 = "[StrList [''x''], EventList [ToolEvent ''add'', ModelEvent],
      EventList [ToolEvent ''add''], EventList [ModelEvent], StrList [''add'']]"
  let ?sr = "\<lparr>events_ref = 1, output_ref = \<lparr>completion = ''42''\<rparr>\<rparr>"
  let ?state = "\<lparr>events = [ToolEvent ''add'', ModelEvent], state_output = \<lparr>completion = ''42''\<rparr>\<rparr>"
  have l1: "load_state ?st1 ?sr = Some ?state"
    by (simp add: load_state_def event_list_at_def)
  have l2: "load_state ?st2 ?sr = Some ?state"
    by (simp add: load_state_def event_list_at_def)
  have e1: "event_list_at ?st1 (events_ref ?sr) = Some [ToolEvent ''add'', ModelEvent]"
    by (simp add: event_list_at_def)
  have e2: "event_list_at ?st2 (events_ref ?sr) = Some [ToolEvent ''add'', ModelEvent]"
    by (simp add: event_list_at_def)
  have a: "process_aware_scorer_on ?st1 ?sr \<lparr>target_text = ''42''\<rparr>
      = Some (Inr \<lparr>score_value_ref = 1, answer_ref = ''42'',
                explanation_ref =
                  ''Found 2 total events: 1 model calls, 1 tool calls. Tools used: add.'',
                metadata_ref =
                  [''total_events'' \<mapsto> RInt 2, ''model_events'' \<mapsto> RInt 1,
                   ''tool_events'' \<mapsto> RInt 1, ''tools_used'' \<mapsto> RList 4]\<rparr>, ?st2)"
    using process_aware_scorer_on_eq[OF e1, of "\<lparr>target_text = ''42''\<rparr>"]
    by (simp add: final_score_of_clamp clamp_def adjusted_values float_consts
        explanation_of_def str_int_def digit_char_def eval_nat_numeral)
  have b: "process_aware_scorer_on ?st2 ?sr \<lparr>target_text = ''42''\<rparr>
      = Some (Inr \<lparr>score_value_ref = 1, answer_ref = ''42'',
                explanation_ref =
                  ''Found 2 total events: 1 model calls, 1 tool calls. Tools used: add.'',
                metadata_ref =
                  [''total_events'' \<mapsto> RInt 2, ''model_events'' \<mapsto> RInt 1,
                   ''tool_events'' \<mapsto> RInt 1, ''tools_used'' \<mapsto> RList 7]\<rparr>,
           ?st2 @ [EventList [ToolEvent ''add''], EventList [ModelEvent], StrList [''add'']])"
    using process_aware_scorer_on_eq[OF e2, of "\<lparr>target_text = ''42''\<rparr>"]
    by (simp add: final_score_of_clamp clamp_def adjusted_values float_consts
        explanation_of_def str_int_def digit_char_def eval_nat_numeral)
  from b have b': "process_aware_scorer_on ?st2 ?sr \<lparr>target_text = ''42''\<rparr>
      = Some (Inr \<lparr>score_value_ref = 1, answer_ref = ''42'',
                explanation_ref =
                  ''Found 2 total events: 1 model calls, 1 tool calls. Tools used: add.'',
                metadata_ref =
                  [''total_events'' \<mapsto> RInt 2, ''model_events'' \<mapsto> RInt 1,
                   ''tool_events'' \<mapsto> RInt 1, ''tools_used'' \<mapsto> RList 7]\<rparr>,
           [StrList [''x''], EventList [ToolEvent ''add'', ModelEvent],
            EventList [ToolEvent ''add''], EventList [ModelEvent], StrList [''add''],
            EventList [ToolEvent ''add''], EventList [ModelEvent], StrList [''add'']])"
    by simp
  from C9_deterministic_and_no_mutation[OF l1 l2, of "\<lparr>target_text = ''42''\<rparr>"] l1 a b'
  show ?thesis by blast
qed

end
